theory Spec2Isabelle
  imports Main
begin

section \<open>Errors and their classification\<close>

text \<open>
  The error taxonomy of the gpa package. Only \<open>NotFound\<close>, \<open>Duplicate\<close>,
  \<open>Validation\<close> and \<open>Database\<close> are named by the repository; the package
  declares further types, kept here under \<open>ErrorTypeOther\<close>.
\<close>

datatype ErrorType =
    ErrorTypeNotFound
  | ErrorTypeDuplicate
  | ErrorTypeValidation
  | ErrorTypeDatabase
  | ErrorTypeOther string

text \<open>
  Go \<open>error\<close> values, as far as \<open>convertGormError\<close> can tell them apart.
  \<open>ErrRecordNotFound\<close> and \<open>ErrDuplicatedKey\<close> are gorm's two sentinel values,
  \<open>ErrorString\<close> is an error without a cause (\<open>errors.New\<close>), \<open>WrapError\<close> an error
  of some other type that wraps one cause (\<open>fmt.Errorf\<close> with \<open>%w\<close>), and
  \<open>GPAError t m c\<close> the value \<open>gpa.GPAError{Type: t, Message: m, Cause: c}\<close>.
  A nil \<open>error\<close> is \<open>None\<close> of \<open>go_error option\<close>. Errors with several causes
  at once (\<open>errors.Join\<close>) are not modelled.
\<close>

datatype go_error =
    ErrRecordNotFound
  | ErrDuplicatedKey
  | ErrorString string
  | WrapError string go_error
  | GPAError ErrorType string "go_error option"

text \<open>\<open>gpa.NewError\<close> and \<open>gpa.NewErrorWithCause\<close> fill the fields they are given.\<close>

definition NewError :: "ErrorType \<Rightarrow> string \<Rightarrow> go_error" where
  "NewError t m = GPAError t m None"

definition NewErrorWithCause :: "ErrorType \<Rightarrow> string \<Rightarrow> go_error \<Rightarrow> go_error" where
  "NewErrorWithCause t m cause = GPAError t m (Some cause)"

text \<open>The type assertion \<open>err.(gpa.GPAError)\<close> succeeds on these values only.\<close>

fun is_GPAError :: "go_error \<Rightarrow> bool" where
  "is_GPAError (GPAError _ _ _) = True"
| "is_GPAError _ = False"

text \<open>
  \<open>errors.Is err target\<close> of the Go standard library walks the chain of causes of
  \<open>err\<close>: it answers true at the first link equal to \<open>target\<close>. A \<open>GPAError\<close>
  exposes its \<open>Cause\<close> to that walk (its \<open>Unwrap\<close> method returns the field). The
  repository only asks for gorm's sentinels, which are compared by identity.
\<close>

fun errors_Is :: "go_error \<Rightarrow> go_error \<Rightarrow> bool" where
  "errors_Is (WrapError m cause) target =
     (WrapError m cause = target \<or> errors_Is cause target)"
| "errors_Is (GPAError t m (Some cause)) target =
     (GPAError t m (Some cause) = target \<or> errors_Is cause target)"
| "errors_Is err target = (err = target)"

text \<open>
  \<open>convertGormError\<close> (repository.go, lines 40-55): nil stays nil; then the two
  sentinel tests, in the order of the source; then the type assertion
  \<open>err.(gpa.GPAError)\<close>; then the wrap as a database error.
\<close>

fun convertGormError :: "go_error option \<Rightarrow> go_error option" where
  "convertGormError None = None"
| "convertGormError (Some err) =
     (if errors_Is err ErrRecordNotFound
        then Some (NewError ErrorTypeNotFound ''record not found'')
      else if errors_Is err ErrDuplicatedKey
        then Some (NewError ErrorTypeDuplicate ''duplicate key'')
      else (case err of
              GPAError t m c \<Rightarrow> Some (GPAError t m c)
            | _ \<Rightarrow> Some (NewErrorWithCause ErrorTypeDatabase ''database error'' err)))"

section \<open>The query compiler\<close>

text \<open>Values of type \<open>interface{}\<close> bound as query parameters.\<close>

datatype go_value =
    NilValue
  | IntValue int
  | StringValue string
  | BoolValue bool
  | ListValue "go_value list"

text \<open>
  The operators of the gpa package. \<open>gpa.Operator\<close> is an open type, so a condition
  can carry a value that is none of the twelve constants: \<open>OpUnknown\<close>.
\<close>

datatype Operator =
    OpEqual
  | OpNotEqual
  | OpGreaterThan
  | OpGreaterThanOrEqual
  | OpLessThan
  | OpLessThanOrEqual
  | OpLike
  | OpNotLike
  | OpIn
  | OpNotIn
  | OpIsNull
  | OpIsNotNull
  | OpUnknown string

text \<open>
  \<open>gpa.BasicCondition{FieldName, Op, Val}\<close>; its methods \<open>Field()\<close>, \<open>Operator()\<close> and
  \<open>Value()\<close> read the three fields. \<open>gpa.Condition\<close> is an interface: a value is a
  \<open>BasicCondition\<close> or has some other dynamic type, named by a tag.
\<close>

record BasicCondition =
  FieldName :: string
  Op :: Operator
  Val :: go_value

datatype Condition =
    BasicCond BasicCondition
  | ComplexCond string

text \<open>The type switch \<open>case gpa.BasicCondition\<close> matches these values only.\<close>

fun is_BasicCondition :: "Condition \<Rightarrow> bool" where
  "is_BasicCondition (BasicCond _) = True"
| "is_BasicCondition (ComplexCond _) = False"

text \<open>
  A \<open>*gorm.DB\<close> is modelled by what the repository can do to it: the connection it is
  bound to and the builder calls chained on it so far, in order. Each builder method
  returns the handle with one more clause.
\<close>

datatype ConnPool = SqlDB | SqlTx

datatype clause =
    WhereClause string "go_value list"
  | HavingClause string "go_value list"
  | SelectClause "string list"
  | OrderClause string
  | LimitClause int
  | OffsetClause int
  | JoinsClause string
  | PreloadClause string
  | GroupClause string
  | DistinctClause
  | ModelClause

record DB =
  Conn :: ConnPool
  Statement :: "clause list"

definition chain :: "DB \<Rightarrow> clause \<Rightarrow> DB" where
  "chain d c = d\<lparr>Statement := Statement d @ [c]\<rparr>"

definition db_Where :: "DB \<Rightarrow> string \<Rightarrow> go_value list \<Rightarrow> DB" where
  "db_Where d query args = chain d (WhereClause query args)"

definition db_Having :: "DB \<Rightarrow> string \<Rightarrow> go_value list \<Rightarrow> DB" where
  "db_Having d query args = chain d (HavingClause query args)"

definition db_Select :: "DB \<Rightarrow> string list \<Rightarrow> DB" where
  "db_Select d columns = chain d (SelectClause columns)"

definition db_Order :: "DB \<Rightarrow> string \<Rightarrow> DB" where
  "db_Order d v = chain d (OrderClause v)"

definition db_Limit :: "DB \<Rightarrow> int \<Rightarrow> DB" where
  "db_Limit d n = chain d (LimitClause n)"

definition db_Offset :: "DB \<Rightarrow> int \<Rightarrow> DB" where
  "db_Offset d n = chain d (OffsetClause n)"

definition db_Joins :: "DB \<Rightarrow> string \<Rightarrow> DB" where
  "db_Joins d query = chain d (JoinsClause query)"

definition db_Preload :: "DB \<Rightarrow> string \<Rightarrow> DB" where
  "db_Preload d query = chain d (PreloadClause query)"

definition db_Group :: "DB \<Rightarrow> string \<Rightarrow> DB" where
  "db_Group d name = chain d (GroupClause name)"

definition db_Distinct :: "DB \<Rightarrow> DB" where
  "db_Distinct d = chain d DistinctClause"

definition db_Model :: "DB \<Rightarrow> DB" where
  "db_Model d = chain d ModelClause"

text \<open>\<open>WithContext\<close> attaches the caller's context, which the model does not carry.\<close>

definition WithContext :: "DB \<Rightarrow> DB" where
  "WithContext d = d"

text \<open>\<open>applyCondition\<close> (repository.go, lines 670-710).\<close>

fun applyCondition :: "DB \<Rightarrow> Condition \<Rightarrow> DB" where
  "applyCondition d (BasicCond cond) =
     (let field = FieldName cond; operator = Op cond; v = Val cond in
      case operator of
        OpEqual \<Rightarrow> db_Where d (field @ '' = ?'') [v]
      | OpNotEqual \<Rightarrow> db_Where d (field @ '' != ?'') [v]
      | OpGreaterThan \<Rightarrow> db_Where d (field @ '' > ?'') [v]
      | OpGreaterThanOrEqual \<Rightarrow> db_Where d (field @ '' >= ?'') [v]
      | OpLessThan \<Rightarrow> db_Where d (field @ '' < ?'') [v]
      | OpLessThanOrEqual \<Rightarrow> db_Where d (field @ '' <= ?'') [v]
      | OpLike \<Rightarrow> db_Where d (field @ '' LIKE ?'') [v]
      | OpNotLike \<Rightarrow> db_Where d (field @ '' NOT LIKE ?'') [v]
      | OpIn \<Rightarrow> db_Where d (field @ '' IN ?'') [v]
      | OpNotIn \<Rightarrow> db_Where d (field @ '' NOT IN ?'') [v]
      | OpIsNull \<Rightarrow> db_Where d (field @ '' IS NULL'') []
      | OpIsNotNull \<Rightarrow> db_Where d (field @ '' IS NOT NULL'') []
      | OpUnknown _ \<Rightarrow> db_Where d (field @ '' = ?'') [v])"
| "applyCondition d (ComplexCond _) = d"

text \<open>\<open>applyHaving\<close> (repository.go, lines 713-741).\<close>

fun applyHaving :: "DB \<Rightarrow> Condition \<Rightarrow> DB" where
  "applyHaving d (BasicCond cond) =
     (let field = FieldName cond; operator = Op cond; v = Val cond in
      case operator of
        OpEqual \<Rightarrow> db_Having d (field @ '' = ?'') [v]
      | OpNotEqual \<Rightarrow> db_Having d (field @ '' != ?'') [v]
      | OpGreaterThan \<Rightarrow> db_Having d (field @ '' > ?'') [v]
      | OpGreaterThanOrEqual \<Rightarrow> db_Having d (field @ '' >= ?'') [v]
      | OpLessThan \<Rightarrow> db_Having d (field @ '' < ?'') [v]
      | OpLessThanOrEqual \<Rightarrow> db_Having d (field @ '' <= ?'') [v]
      | _ \<Rightarrow> db_Having d (field @ '' = ?'') [v])"
| "applyHaving d (ComplexCond _) = d"

text \<open>
  The operator table as the specification writes it: the text that follows the field
  name, and whether the value is bound as a parameter. The first function is the table
  for WHERE (an operator outside the table is read as Equal), the second the one for
  HAVING (only the six comparisons; every other operator is read as Equal).
\<close>

fun spec_where_template :: "Operator \<Rightarrow> string \<times> bool" where
  "spec_where_template OpEqual = ('' = ?'', True)"
| "spec_where_template OpNotEqual = ('' != ?'', True)"
| "spec_where_template OpGreaterThan = ('' > ?'', True)"
| "spec_where_template OpGreaterThanOrEqual = ('' >= ?'', True)"
| "spec_where_template OpLessThan = ('' < ?'', True)"
| "spec_where_template OpLessThanOrEqual = ('' <= ?'', True)"
| "spec_where_template OpLike = ('' LIKE ?'', True)"
| "spec_where_template OpNotLike = ('' NOT LIKE ?'', True)"
| "spec_where_template OpIn = ('' IN ?'', True)"
| "spec_where_template OpNotIn = ('' NOT IN ?'', True)"
| "spec_where_template OpIsNull = ('' IS NULL'', False)"
| "spec_where_template OpIsNotNull = ('' IS NOT NULL'', False)"
| "spec_where_template (OpUnknown _) = ('' = ?'', True)"

definition comparison_subset :: "Operator list" where
  "comparison_subset =
     [OpEqual, OpNotEqual, OpGreaterThan, OpGreaterThanOrEqual, OpLessThan, OpLessThanOrEqual]"

definition spec_having_template :: "Operator \<Rightarrow> string \<times> bool" where
  "spec_having_template operator =
     (if operator \<in> set comparison_subset then spec_where_template operator
      else spec_where_template OpEqual)"

definition bound_parameters :: "bool \<Rightarrow> go_value \<Rightarrow> go_value list" where
  "bound_parameters takes_value v = (if takes_value then [v] else [])"

text \<open>
  The accumulator \<open>gpa.Query\<close> and its parts. A \<open>gpa.QueryOption\<close> is anything with an
  \<open>Apply\<close> method that updates the accumulator: a function on it.
\<close>

record Order =
  Field :: string
  Direction :: string

record Join =
  Type :: string
  Table :: string
  Alias :: string
  Condition :: string

record Query =
  Conditions :: "Condition list"
  Fields :: "string list"
  Orders :: "Order list"
  Limit :: "int option"
  Offset :: "int option"
  Joins :: "Join list"
  Preloads :: "string list"
  Groups :: "string list"
  Having :: "Condition list"
  Distinct :: bool

type_synonym QueryOption = "Query \<Rightarrow> Query"

definition empty_Query :: Query where
  "empty_Query = \<lparr>Conditions = [], Fields = [], Orders = [], Limit = None, Offset = None,
     Joins = [], Preloads = [], Groups = [], Having = [], Distinct = False\<rparr>"

datatype Provider = Provider string

record Repository =
  db :: DB
  provider :: Provider

definition joinClause :: "Join \<Rightarrow> string" where
  "joinClause join =
     (let c = Type join @ '' JOIN '' @ Table join;
          c = (if Alias join \<noteq> [] then c @ '' AS '' @ Alias join else c);
          c = (if Condition join \<noteq> [] then c @ '' ON '' @ Condition join else c)
      in c)"

text \<open>\<open>buildQuery\<close> (repository.go, lines 597-667): each loop is a fold, in order.\<close>

definition buildQuery :: "Repository \<Rightarrow> QueryOption list \<Rightarrow> DB" where
  "buildQuery r opts =
     (let query = fold (\<lambda>opt q. opt q) opts empty_Query;
          d = db r;
          d = fold (\<lambda>condition d. applyCondition d condition) (Conditions query) d;
          d = (if length (Fields query) > 0 then db_Select d (Fields query) else d);
          d = fold (\<lambda>order d. db_Order d (Field order @ '' '' @ Direction order)) (Orders query) d;
          d = (case Limit query of Some n \<Rightarrow> db_Limit d n | None \<Rightarrow> d);
          d = (case Offset query of Some n \<Rightarrow> db_Offset d n | None \<Rightarrow> d);
          d = fold (\<lambda>join d. db_Joins d (joinClause join)) (Joins query) d;
          d = fold (\<lambda>preload d. db_Preload d preload) (Preloads query) d;
          d = (if length (Groups query) > 0
               then fold (\<lambda>group d. db_Group d group) (Groups query) d else d);
          d = fold (\<lambda>having d. applyHaving d having) (Having query) d;
          d = (if Distinct query then db_Distinct d else d)
      in d)"

section \<open>The store, the entities and their hooks\<close>

text \<open>
  What gorm hands back after a terminal call: the fields \<open>Error\<close> and \<open>RowsAffected\<close>
  of the returned handle. \<open>RowsAffected\<close> is an \<open>int64\<close> that is only compared with
  zero.
\<close>

record Result =
  Error :: "go_error option"
  RowsAffected :: int

text \<open>
  An entity, as the repository sees it: an identity, and for each hook interface of the
  gpa package whether the entity implements it (\<open>None\<close>: it does not) and, if so, what
  the call returns (\<open>Some None\<close>: nil, \<open>Some (Some err)\<close>: the error \<open>err\<close>). One
  operation calls each hook of an entity at most once, so fixing the outcome per
  entity loses no run.
\<close>

type_synonym hook = "go_error option option"

record Entity =
  ident :: nat
  Validate :: hook
  BeforeCreate :: hook
  AfterCreate :: hook
  BeforeDelete :: hook
  AfterDelete :: hook

text \<open>
  Every call that leaves the repository is recorded, in order: hook calls, terminal
  gorm calls with the handle they are issued on, the transaction brackets, and the
  migrator calls. \<open>CallerFunction\<close> holds what the function given to \<open>Transaction\<close>
  did, as one entry of the trace.
\<close>

datatype event =
    HookValidate nat
  | HookBeforeCreate nat
  | HookAfterCreate nat
  | HookBeforeDelete nat
  | HookAfterDelete nat
  | GormCreate DB nat
  | GormInsert DB "nat list"
  | GormFirst DB go_value
  | GormDelete DB go_value
  | GormUpdates DB "(string \<times> go_value) list"
  | GormCount DB
  | GormBegin
  | GormCommit
  | GormRollback
  | GormSavePoint
  | GormRollbackTo
  | CallerFunction "event list"
  | SchemaParse
  | MigratorHasIndex string
  | MigratorCreateIndex string

text \<open>The calls that write entities to the store on the create paths.\<close>

fun is_persistence :: "event \<Rightarrow> bool" where
  "is_persistence (GormCreate _ _) = True"
| "is_persistence (GormInsert _ _) = True"
| "is_persistence _ = False"

text \<open>
  The store is outside the repository: its answers are parameters. \<open>on_InsertBatch\<close>
  answers the physical write of one sub-batch (given the offset of its first row),
  \<open>on_First\<close> also yields the entity it loaded, \<open>on_Count\<close> the number it wrote to the
  counter, \<open>on_Begin\<close>, \<open>on_Commit\<close> and \<open>on_SavePoint\<close> the error, if any, of opening
  a transaction, committing it and setting a savepoint, \<open>on_Parse\<close> the table name of
  the entity type or the error of \<open>Statement.Parse\<close>.
\<close>

record Store =
  on_Create :: "DB \<Rightarrow> Entity \<Rightarrow> Result"
  on_InsertBatch :: "DB \<Rightarrow> nat \<Rightarrow> Entity list \<Rightarrow> Result"
  on_First :: "DB \<Rightarrow> go_value \<Rightarrow> Result \<times> Entity"
  on_Delete :: "DB \<Rightarrow> go_value \<Rightarrow> Result"
  on_Updates :: "DB \<Rightarrow> (string \<times> go_value) list \<Rightarrow> Result"
  on_Count :: "DB \<Rightarrow> int \<times> Result"
  on_Begin :: "DB \<Rightarrow> go_error option"
  on_Commit :: "DB \<Rightarrow> go_error option"
  on_SavePoint :: "DB \<Rightarrow> go_error option"
  on_Parse :: "go_error + string"
  on_HasIndex :: "string \<Rightarrow> bool"
  on_CreateIndex :: "string \<Rightarrow> go_error option"

text \<open>
  The capability check and the call: \<open>if hook, ok := any(entity).(gpa.XHook); ok\<close>
  followed by the call of the hook's method.
\<close>

fun call_hook :: "hook \<Rightarrow> event \<Rightarrow> go_error option \<times> event list" where
  "call_hook None ev = (None, [])"
| "call_hook (Some outcome) ev = (outcome, [ev])"

section \<open>gorm's transactions\<close>

text \<open>
  gorm's \<open>DB.Transaction(fc)\<close>. On a handle bound to the connection pool: \<open>Begin\<close>; if
  that fails its error is returned and \<open>fc\<close> is not called; otherwise \<open>fc\<close> runs on
  the transactional handle, and its error, if any, is returned after a \<open>Rollback\<close>;
  with no error the result is that of \<open>Commit\<close> (followed by a \<open>Rollback\<close> when the
  commit itself fails). On a handle that is already transactional (a nested call):
  a savepoint is set; if that fails its error is returned and \<open>fc\<close> is not called;
  otherwise \<open>fc\<close> runs on the same handle, an error of \<open>fc\<close> is returned after a
  rollback to the savepoint, and nothing is committed. The provider builds its
  \<open>gorm.Config\<close> with a logger and a naming strategy only (main.go, lines 36-41), so
  \<open>SkipDefaultTransaction\<close> and \<open>DisableNestedTransaction\<close> are unset.
\<close>

definition gorm_Transaction ::
  "Store \<Rightarrow> DB \<Rightarrow> (DB \<Rightarrow> go_error option \<times> event list) \<Rightarrow> go_error option \<times> event list" where
  "gorm_Transaction st d fc =
     (case Conn d of
        SqlTx \<Rightarrow>
          (case on_SavePoint st d of
             Some e \<Rightarrow> (Some e, [GormSavePoint])
           | None \<Rightarrow>
               (case fc d of
                  (Some e, body) \<Rightarrow> (Some e, [GormSavePoint] @ body @ [GormRollbackTo])
                | (None, body) \<Rightarrow> (None, [GormSavePoint] @ body)))
      | SqlDB \<Rightarrow>
          (case on_Begin st d of
             Some e \<Rightarrow> (Some e, [GormBegin])
           | None \<Rightarrow>
               (let tx = d\<lparr>Conn := SqlTx\<rparr> in
                case fc tx of
                  (Some e, body) \<Rightarrow> (Some e, [GormBegin] @ body @ [GormRollback])
                | (None, body) \<Rightarrow>
                    (case on_Commit st tx of
                       None \<Rightarrow> (None, [GormBegin] @ body @ [GormCommit])
                     | Some e \<Rightarrow> (Some e, [GormBegin] @ body @ [GormCommit, GormRollback])))))"

text \<open>
  Whether the transaction, or the savepoint of a nested one, can be opened on a handle,
  and whether what was opened can be closed: a top-level transaction by a commit that
  succeeds, a nested one with nothing to do.
\<close>

definition transaction_opens :: "Store \<Rightarrow> DB \<Rightarrow> bool" where
  "transaction_opens st d =
     (case Conn d of SqlDB \<Rightarrow> on_Begin st d = None | SqlTx \<Rightarrow> on_SavePoint st d = None)"

definition transaction_closes :: "Store \<Rightarrow> DB \<Rightarrow> bool" where
  "transaction_closes st d =
     (case Conn d of SqlDB \<Rightarrow> on_Commit st (d\<lparr>Conn := SqlTx\<rparr>) = None | SqlTx \<Rightarrow> True)"

section \<open>Create and CreateBatch\<close>

text \<open>\<open>Create\<close> (repository.go, lines 71-101).\<close>

definition Create :: "Store \<Rightarrow> Repository \<Rightarrow> Entity \<Rightarrow> go_error option \<times> event list" where
  "Create st r entity =
     (case call_hook (Validate entity) (HookValidate (ident entity)) of
        (Some err, t1) \<Rightarrow>
          (Some (NewErrorWithCause ErrorTypeValidation ''validation failed'' err), t1)
      | (None, t1) \<Rightarrow>
     (case call_hook (BeforeCreate entity) (HookBeforeCreate (ident entity)) of
        (Some err, t2) \<Rightarrow>
          (Some (NewErrorWithCause ErrorTypeValidation ''before create hook failed'' err),
           t1 @ t2)
      | (None, t2) \<Rightarrow>
     (let d = WithContext (db r);
          result = on_Create st d entity;
          t3 = [GormCreate d (ident entity)]
      in if Error result \<noteq> None
         then (convertGormError (Error result), t1 @ t2 @ t3)
         else (case call_hook (AfterCreate entity) (HookAfterCreate (ident entity)) of
                 (_, t4) \<Rightarrow> (None, t1 @ t2 @ t3 @ t4)))))"

text \<open>The three loops of \<open>CreateBatch\<close> over the entities.\<close>

fun validate_all :: "Entity list \<Rightarrow> go_error option \<times> event list" where
  "validate_all [] = (None, [])"
| "validate_all (entity # rest) =
     (case call_hook (Validate entity) (HookValidate (ident entity)) of
        (Some err, t) \<Rightarrow>
          (Some (NewErrorWithCause ErrorTypeValidation ''validation failed'' err), t)
      | (None, t) \<Rightarrow> (case validate_all rest of (res, t') \<Rightarrow> (res, t @ t')))"

fun before_create_all :: "Entity list \<Rightarrow> go_error option \<times> event list" where
  "before_create_all [] = (None, [])"
| "before_create_all (entity # rest) =
     (case call_hook (BeforeCreate entity) (HookBeforeCreate (ident entity)) of
        (Some err, t) \<Rightarrow>
          (Some (NewErrorWithCause ErrorTypeValidation ''before create hook failed'' err), t)
      | (None, t) \<Rightarrow> (case before_create_all rest of (res, t') \<Rightarrow> (res, t @ t')))"

fun after_create_all :: "Entity list \<Rightarrow> event list" where
  "after_create_all [] = []"
| "after_create_all (entity # rest) =
     (case call_hook (AfterCreate entity) (HookAfterCreate (ident entity)) of
        (_, t) \<Rightarrow> t @ after_create_all rest)"

text \<open>
  gorm's \<open>CreateInBatches(value, batchSize)\<close>: the loop
  \<open>for i := 0; i < len; i += batchSize\<close> writes the slice \<open>value[i:ends]\<close> with
  \<open>ends = min(i + batchSize, len)\<close>, stops at the first write that fails, and adds up
  the rows affected. (A batch size of zero, which the repository never passes, ends
  the model's loop at once.)
\<close>

function CreateInBatches_loop ::
  "Store \<Rightarrow> DB \<Rightarrow> Entity list \<Rightarrow> nat \<Rightarrow> nat \<Rightarrow> int \<Rightarrow> Result \<times> event list" where
  "CreateInBatches_loop st d v batchSize i rowsAffected =
     (if batchSize = 0 \<or> \<not> i < length v
      then (\<lparr>Error = None, RowsAffected = rowsAffected\<rparr>, [])
      else (let ends = (if i + batchSize > length v then length v else i + batchSize);
                sub = take (ends - i) (drop i v);
                subtx = on_InsertBatch st d i sub;
                ev = GormInsert d (map ident sub)
            in if Error subtx \<noteq> None
               then (\<lparr>Error = Error subtx, RowsAffected = rowsAffected\<rparr>, [ev])
               else (case CreateInBatches_loop st d v batchSize (i + batchSize)
                            (rowsAffected + RowsAffected subtx) of
                       (res, evs) \<Rightarrow> (res, ev # evs))))"
  by pat_completeness auto
termination
  by (relation "measure (\<lambda>(st, d, v, batchSize, i, rowsAffected). length v - i)") auto

declare CreateInBatches_loop.simps [simp del]

text \<open>
  With at most one sub-batch the loop runs on the handle as it is. With more, gorm
  runs it inside \<open>DB.Transaction\<close>: the error of the call is that of the transaction,
  the rows affected are what the loop added up, if it ran.
\<close>

definition CreateInBatches :: "Store \<Rightarrow> DB \<Rightarrow> Entity list \<Rightarrow> nat \<Rightarrow> Result \<times> event list" where
  "CreateInBatches st d v batchSize =
     (if length v \<le> batchSize then CreateInBatches_loop st d v batchSize 0 0
      else (case gorm_Transaction st d
                   (\<lambda>tx. case CreateInBatches_loop st tx v batchSize 0 0 of
                           (res, evs) \<Rightarrow> (Error res, evs)) of
              (err, evs) \<Rightarrow>
                (\<lparr>Error = err,
                  RowsAffected =
                    (if transaction_opens st d
                     then RowsAffected
                            (fst (CreateInBatches_loop st (d\<lparr>Conn := SqlTx\<rparr>) v batchSize 0 0))
                     else 0)\<rparr>,
                 evs)))"

text \<open>\<open>CreateBatch\<close> (repository.go, lines 104-139).\<close>

definition CreateBatch ::
  "Store \<Rightarrow> Repository \<Rightarrow> Entity list \<Rightarrow> go_error option \<times> event list" where
  "CreateBatch st r entities =
     (case validate_all entities of
        (Some err, t1) \<Rightarrow> (Some err, t1)
      | (None, t1) \<Rightarrow>
     (case before_create_all entities of
        (Some err, t2) \<Rightarrow> (Some err, t1 @ t2)
      | (None, t2) \<Rightarrow>
     (case CreateInBatches st (WithContext (db r)) entities 100 of
        (result, t3) \<Rightarrow>
          if Error result \<noteq> None
          then (convertGormError (Error result), t1 @ t2 @ t3)
          else (None, t1 @ t2 @ t3 @ after_create_all entities))))"

section \<open>UpdatePartial and Delete\<close>

text \<open>
  \<open>UpdatePartial\<close> (repository.go, lines 204-217). The map of updates is kept as a
  list of pairs; the argument \<open>id\<close> is called \<open>pk\<close>.
\<close>

definition UpdatePartial ::
  "Store \<Rightarrow> Repository \<Rightarrow> go_value \<Rightarrow> (string \<times> go_value) list
     \<Rightarrow> go_error option \<times> event list" where
  "UpdatePartial st r pk updates =
     (let d = db_Where (db_Model (WithContext (db r))) ''id = ?'' [pk];
          result = on_Updates st d updates;
          t = [GormUpdates d updates]
      in if Error result \<noteq> None then (convertGormError (Error result), t)
         else if RowsAffected result = 0
         then (Some (GPAError ErrorTypeNotFound ''entity not found'' None), t)
         else (None, t))"

text \<open>\<open>Delete\<close> (repository.go, lines 220-256).\<close>

definition Delete :: "Store \<Rightarrow> Repository \<Rightarrow> go_value \<Rightarrow> go_error option \<times> event list" where
  "Delete st r pk =
     (let d = WithContext (db r);
          (result, entity) = on_First st d pk;
          t1 = [GormFirst d pk]
      in if Error result \<noteq> None then (convertGormError (Error result), t1)
         else
     (case call_hook (BeforeDelete entity) (HookBeforeDelete (ident entity)) of
        (Some err, t2) \<Rightarrow>
          (Some (NewErrorWithCause ErrorTypeValidation ''before delete hook failed'' err),
           t1 @ t2)
      | (None, t2) \<Rightarrow>
     (let result = on_Delete st d pk;
          t3 = [GormDelete d pk]
      in if Error result \<noteq> None then (convertGormError (Error result), t1 @ t2 @ t3)
         else if RowsAffected result = 0
         then (Some (GPAError ErrorTypeNotFound ''entity not found'' None), t1 @ t2 @ t3)
         else (case call_hook (AfterDelete entity) (HookAfterDelete (ident entity)) of
                 (_, t4) \<Rightarrow> (None, t1 @ t2 @ t3 @ t4)))))"

section \<open>Count and Exists\<close>

text \<open>\<open>Count\<close> (repository.go, lines 290-296) returns the counter and the classified error.\<close>

definition Count ::
  "Store \<Rightarrow> Repository \<Rightarrow> QueryOption list \<Rightarrow> (int \<times> go_error option) \<times> event list" where
  "Count st r opts =
     (let query = buildQuery r opts;
          d = db_Model (WithContext query);
          (count, result) = on_Count st d
      in ((count, convertGormError (Error result)), [GormCount d]))"

text \<open>\<open>Exists\<close> (repository.go, lines 299-302).\<close>

definition Exists ::
  "Store \<Rightarrow> Repository \<Rightarrow> QueryOption list \<Rightarrow> (bool \<times> go_error option) \<times> event list" where
  "Exists st r opts =
     (case Count st r opts of ((count, err), t) \<Rightarrow> ((count > 0, err), t))"

section \<open>Transaction\<close>

text \<open>\<open>Transaction[T]\<close> embeds a repository.\<close>

record Transaction =
  Repository :: Repository

text \<open>
  \<open>Transaction\<close> (repository.go, lines 305-315). The closure hands the result of the
  caller's function back as it is; what that function did is kept as one entry of
  the trace.
\<close>

definition Transaction ::
  "Store \<Rightarrow> Repository \<Rightarrow> (Transaction \<Rightarrow> go_error option \<times> event list)
     \<Rightarrow> go_error option \<times> event list" where
  "Transaction st r fn =
     gorm_Transaction st (WithContext (db r))
       (\<lambda>tx. let txRepo = \<lparr>Repository = \<lparr>db = tx, provider = provider r\<rparr>\<rparr> in
             case fn txRepo of (err, body) \<Rightarrow> (err, [CallerFunction body]))"

section \<open>CreateIndex\<close>

text \<open>A call either returns its error value or panics (index out of range).\<close>

datatype call_result = Returned "go_error option" | Panic

text \<open>
  \<open>CreateIndex\<close> (repository.go, lines 454-480). \<open>fields[0]\<close> and \<open>fields[1:]\<close> panic
  on the empty slice. The flag \<open>unique\<close> is not read by the source.
\<close>

definition CreateIndex ::
  "Store \<Rightarrow> Repository \<Rightarrow> string list \<Rightarrow> bool \<Rightarrow> call_result \<times> event list" where
  "CreateIndex st r fieldNames unique =
     (case on_Parse st of
        Inl err \<Rightarrow> (Returned (convertGormError (Some err)), [SchemaParse])
      | Inr table \<Rightarrow>
          (case fieldNames of
             [] \<Rightarrow> (Panic, [SchemaParse])
           | first # rest \<Rightarrow>
               (let indexName =
                      fold (\<lambda>field name. name @ ''_'' @ field) rest
                        (''idx_'' @ table @ ''_'' @ first)
                in if on_HasIndex st indexName
                   then (Returned (Some (GPAError ErrorTypeDuplicate
                                           (''index already exists: '' @ indexName) None)),
                         [SchemaParse, MigratorHasIndex indexName])
                   else (Returned (convertGormError (on_CreateIndex st indexName)),
                         [SchemaParse, MigratorHasIndex indexName,
                          MigratorCreateIndex indexName]))))"

text \<open>The index name in the words of the claim: the field names joined by \<open>_\<close>.\<close>

fun join_with :: "string \<Rightarrow> string list \<Rightarrow> string" where
  "join_with sep [] = []"
| "join_with sep [x] = x"
| "join_with sep (x # y # ys) = x @ sep @ join_with sep (y # ys)"

definition spec_index_name :: "string \<Rightarrow> string list \<Rightarrow> string" where
  "spec_index_name table fieldNames = ''idx_'' @ table @ ''_'' @ join_with ''_'' fieldNames"

section \<open>Vocabulary of the statements\<close>

text \<open>A hook passes when the entity does not implement it or its call returns nil.\<close>

fun hook_ok :: "hook \<Rightarrow> bool" where
  "hook_ok (Some (Some _)) = False"
| "hook_ok _ = True"

text \<open>
  The calls of one hook on the entities that implement it, in the order of the list.
\<close>

definition hook_calls :: "(Entity \<Rightarrow> hook) \<Rightarrow> (nat \<Rightarrow> event) \<Rightarrow> Entity list \<Rightarrow> event list" where
  "hook_calls h ev entities = map (\<lambda>e. ev (ident e)) (filter (\<lambda>e. h e \<noteq> None) entities)"

text \<open>The rows that a physical write carries; every other call carries none.\<close>

fun inserted_rows :: "event \<Rightarrow> nat list" where
  "inserted_rows (GormInsert _ ids) = ids"
| "inserted_rows _ = []"

section \<open>Sample inputs\<close>

text \<open>A fresh handle on the connection pool and a repository on it.\<close>

definition pool_db :: DB where
  "pool_db = \<lparr>Conn = SqlDB, Statement = []\<rparr>"

definition user_repo :: Repository where
  "user_repo = \<lparr>db = pool_db, provider = Provider ''default''\<rparr>"

text \<open>
  The repository that \<open>Transaction\<close> hands to the caller's function: the same, on the
  transactional handle.
\<close>

definition tx_repo :: Repository where
  "tx_repo = \<lparr>db = \<lparr>Conn = SqlTx, Statement = []\<rparr>, provider = Provider ''default''\<rparr>"

text \<open>
  An entity type that implements every hook, each returning nil; a store where every
  call succeeds; one where the targeted row is not there; one that cannot open a
  transaction or set a savepoint; one whose entity type has no schema.
\<close>

definition hooked_entity :: "nat \<Rightarrow> Entity" where
  "hooked_entity n = \<lparr>ident = n, Validate = Some None, BeforeCreate = Some None,
     AfterCreate = Some None, BeforeDelete = Some None, AfterDelete = Some None\<rparr>"

definition ok_store :: Store where
  "ok_store = \<lparr>
     on_Create = (\<lambda>d e. \<lparr>Error = None, RowsAffected = 1\<rparr>),
     on_InsertBatch = (\<lambda>d i s. \<lparr>Error = None, RowsAffected = int (length s)\<rparr>),
     on_First = (\<lambda>d pk. (\<lparr>Error = None, RowsAffected = 1\<rparr>, hooked_entity 1)),
     on_Delete = (\<lambda>d pk. \<lparr>Error = None, RowsAffected = 1\<rparr>),
     on_Updates = (\<lambda>d u. \<lparr>Error = None, RowsAffected = 1\<rparr>),
     on_Count = (\<lambda>d. (1, \<lparr>Error = None, RowsAffected = 0\<rparr>)),
     on_Begin = (\<lambda>d. None),
     on_Commit = (\<lambda>d. None),
     on_SavePoint = (\<lambda>d. None),
     on_Parse = Inr ''users'',
     on_HasIndex = (\<lambda>n. False),
     on_CreateIndex = (\<lambda>n. None)\<rparr>"

definition no_row_store :: Store where
  "no_row_store = ok_store\<lparr>
     on_Delete := (\<lambda>d pk. \<lparr>Error = None, RowsAffected = 0\<rparr>),
     on_Updates := (\<lambda>d u. \<lparr>Error = None, RowsAffected = 0\<rparr>)\<rparr>"

definition closed_store :: Store where
  "closed_store = ok_store\<lparr>
     on_Begin := (\<lambda>d. Some (ErrorString ''connection refused'')),
     on_SavePoint := (\<lambda>d. Some (ErrorString ''connection refused''))\<rparr>"

definition unparsed_store :: Store where
  "unparsed_store = ok_store\<lparr>on_Parse := Inl (ErrorString ''unsupported data type'')\<rparr>"

text \<open>
  Three functions a caller may hand to \<open>Transaction\<close>: one creates an entity and then
  returns an error of its own, one creates an entity and returns what \<open>Create\<close>
  returned, one returns gorm's record-not-found sentinel as it is.
\<close>

definition failing_caller :: "Transaction \<Rightarrow> go_error option \<times> event list" where
  "failing_caller tx =
     (case Create ok_store (Repository tx) (hooked_entity 1) of
        (Some err, t) \<Rightarrow> (Some err, t)
      | (None, t) \<Rightarrow> (Some (NewError ErrorTypeValidation ''test error''), t))"

definition passing_caller :: "Transaction \<Rightarrow> go_error option \<times> event list" where
  "passing_caller tx = Create ok_store (Repository tx) (hooked_entity 1)"

definition raw_caller :: "Transaction \<Rightarrow> go_error option \<times> event list" where
  "raw_caller tx = (Some ErrRecordNotFound, [])"

section \<open>Properties of the error classifier\<close>

lemma sentinels_exclusive:
  "errors_Is err ErrRecordNotFound \<Longrightarrow> \<not> errors_Is err ErrDuplicatedKey"
  by (induction err ErrRecordNotFound rule: errors_Is.induct) auto

lemma errors_Is_GPAError_sentinel:
  "errors_Is (GPAError t m c) ErrRecordNotFound =
     (case c of None \<Rightarrow> False | Some e \<Rightarrow> errors_Is e ErrRecordNotFound)"
  "errors_Is (GPAError t m c) ErrDuplicatedKey =
     (case c of None \<Rightarrow> False | Some e \<Rightarrow> errors_Is e ErrDuplicatedKey)"
  by (cases c; simp)+

text \<open>
  What does hold of re-classification: an error of the system's own type is returned
  as it is when neither sentinel is reachable through its causes, and therefore
  whatever the classifier returns is left alone by a second pass.
\<close>

lemma convertGormError_passes_GPAError:
  "\<not> errors_Is (GPAError t m c) ErrRecordNotFound \<Longrightarrow>
   \<not> errors_Is (GPAError t m c) ErrDuplicatedKey \<Longrightarrow>
   convertGormError (Some (GPAError t m c)) = Some (GPAError t m c)"
  by simp

lemma convertGormError_idem:
  "convertGormError (convertGormError e) = convertGormError e"
  by (cases e)
     (auto simp: NewError_def NewErrorWithCause_def errors_Is_GPAError_sentinel
           split: go_error.splits option.splits)

text \<open>
  C2. The claim: classifying an error that already is a \<open>GPAError\<close>, of any type and
  with any cause, returns it unchanged, the pass-through coming before the tests for
  the no-matching-row and the key-conflict signals. The source runs the two sentinel
  tests first, and \<open>errors.Is\<close> follows the cause of a \<open>GPAError\<close>: a validation error
  caused by gorm's record-not-found sentinel comes back as a fresh not-found error,
  its type, message and cause gone.
\<close>

theorem convertGormError_loses_classification:
  "convertGormError
     (Some (GPAError ErrorTypeValidation ''validation failed'' (Some ErrRecordNotFound)))
   = Some (GPAError ErrorTypeNotFound ''record not found'' None)"
  by (simp add: NewError_def)

text \<open>
  C3. The classifier maps nil to nil, an error that signals no matching row to a
  \<open>NotFound\<close> error, an error that signals a key conflict to a \<open>Duplicate\<close> error, and
  every other error that is not already a \<open>GPAError\<close> to a \<open>Database\<close> error whose
  cause is the original error.
\<close>

theorem convertGormError_classifies:
  "convertGormError None = None
   \<and> (errors_Is err ErrRecordNotFound \<longrightarrow>
        convertGormError (Some err) =
          Some (GPAError ErrorTypeNotFound ''record not found'' None))
   \<and> (errors_Is err ErrDuplicatedKey \<longrightarrow>
        convertGormError (Some err) =
          Some (GPAError ErrorTypeDuplicate ''duplicate key'' None))
   \<and> (\<not> errors_Is err ErrRecordNotFound \<and> \<not> errors_Is err ErrDuplicatedKey
        \<and> \<not> is_GPAError err \<longrightarrow>
        convertGormError (Some err) =
          Some (GPAError ErrorTypeDatabase ''database error'' (Some err)))"
  using sentinels_exclusive [of err]
  by (cases err) (auto simp: NewError_def NewErrorWithCause_def)

theorem convertGormError_classifies_witness:
  "convertGormError (Some (WrapError ''load user'' ErrRecordNotFound)) =
     Some (GPAError ErrorTypeNotFound ''record not found'' None)
   \<and> convertGormError (Some ErrDuplicatedKey) =
     Some (GPAError ErrorTypeDuplicate ''duplicate key'' None)
   \<and> convertGormError (Some (ErrorString ''connection refused'')) =
     Some (GPAError ErrorTypeDatabase ''database error''
             (Some (ErrorString ''connection refused'')))"
  using convertGormError_classifies [of "WrapError ''load user'' ErrRecordNotFound"]
        convertGormError_classifies [of ErrDuplicatedKey]
        convertGormError_classifies [of "ErrorString ''connection refused''"]
  by simp

section \<open>Properties of the query compiler\<close>

text \<open>
  C1. For a \<open>BasicCondition\<close>, the WHERE compiler issues exactly one \<open>Where\<close> call whose
  text is the field name followed by the template of the operator table and whose
  parameters are the value alone, or nothing for \<open>IsNull\<close> and \<open>IsNotNull\<close>; an
  unknown operator is compiled as Equal. The HAVING compiler does the same with the
  table restricted to the six comparisons, every other operator compiled as Equal.
\<close>

theorem applyCondition_operator_table:
  "applyCondition d (BasicCond cond) =
     db_Where d (FieldName cond @ fst (spec_where_template (Op cond)))
       (bound_parameters (snd (spec_where_template (Op cond))) (Val cond))
   \<and> applyHaving d (BasicCond cond) =
     db_Having d (FieldName cond @ fst (spec_having_template (Op cond)))
       (bound_parameters (snd (spec_having_template (Op cond))) (Val cond))"
  by (cases "Op cond")
     (simp_all add: spec_having_template_def comparison_subset_def bound_parameters_def)

text \<open>
  C8. A condition that is not a \<open>BasicCondition\<close> leaves the query as it was, as a
  WHERE filter and as a HAVING condition alike: the handle that comes back is the
  handle that went in, and neither function has another way to report anything.
\<close>

theorem complex_condition_noop:
  "\<not> is_BasicCondition c \<Longrightarrow> applyCondition d c = d \<and> applyHaving d c = d"
  by (cases c) simp_all

theorem complex_condition_noop_witness:
  "\<not> is_BasicCondition (ComplexCond ''CompositeCondition'')
   \<and> applyCondition pool_db (ComplexCond ''CompositeCondition'') = pool_db
   \<and> applyHaving pool_db (ComplexCond ''CompositeCondition'') = pool_db"
  using complex_condition_noop [of "ComplexCond ''CompositeCondition''" pool_db]
  by simp

section \<open>Properties of Count and Exists\<close>

text \<open>
  C9. For every option sequence, the truth value \<open>Exists\<close> returns is whether the
  number \<open>Count\<close> returns for the same options is greater than zero, and the error it
  returns is the error of \<open>Count\<close>, whether nil or not; both issue the same call.
\<close>

theorem Exists_Count:
  "Exists st r opts =
     ((0 < fst (fst (Count st r opts)), snd (fst (Count st r opts))), snd (Count st r opts))"
  by (simp add: Exists_def split: prod.splits)

section \<open>Properties of Create and CreateBatch\<close>

lemma call_hook_ok:
  "hook_ok h \<Longrightarrow> call_hook h ev = (None, if h = None then [] else [ev])"
  by (cases h rule: hook_ok.cases) auto

lemma hook_calls_Nil [simp]: "hook_calls h ev [] = []"
  by (simp add: hook_calls_def)

lemma hook_calls_Cons:
  "hook_calls h ev (e # es) = (if h e = None then [] else [ev (ident e)]) @ hook_calls h ev es"
  by (simp add: hook_calls_def)

lemma hook_calls_append [simp]:
  "hook_calls h ev (xs @ ys) = hook_calls h ev xs @ hook_calls h ev ys"
  by (simp add: hook_calls_def)

lemma hook_calls_not_persistence:
  "filter is_persistence (hook_calls h HookValidate es) = []"
  "filter is_persistence (hook_calls h HookBeforeCreate es) = []"
  "filter is_persistence (hook_calls h HookAfterCreate es) = []"
  by (induction es) (simp_all add: hook_calls_Cons)

text \<open>
  C4. \<open>Create\<close> runs \<open>Validate\<close>, then \<open>BeforeCreate\<close>, then the insert, then
  \<open>AfterCreate\<close>, each hook only if the entity implements it. A failing \<open>Validate\<close>
  or \<open>BeforeCreate\<close> ends the call with a \<open>Validation\<close> error whose cause is the
  hook's error, and the trace of calls shows no insert. Once the insert has succeeded
  the call returns nil whatever \<open>AfterCreate\<close> returns.
\<close>

theorem Create_hook_lifecycle:
  "(Validate entity = Some (Some err) \<longrightarrow>
      Create st r entity =
        (Some (GPAError ErrorTypeValidation ''validation failed'' (Some err)),
         [HookValidate (ident entity)])
      \<and> filter is_persistence (snd (Create st r entity)) = [])
   \<and> (hook_ok (Validate entity) \<and> BeforeCreate entity = Some (Some err) \<longrightarrow>
      Create st r entity =
        (Some (GPAError ErrorTypeValidation ''before create hook failed'' (Some err)),
         hook_calls Validate HookValidate [entity] @ [HookBeforeCreate (ident entity)])
      \<and> filter is_persistence (snd (Create st r entity)) = [])
   \<and> (hook_ok (Validate entity) \<and> hook_ok (BeforeCreate entity)
        \<and> Error (on_Create st (WithContext (db r)) entity) = None \<longrightarrow>
      Create st r entity =
        (None,
         hook_calls Validate HookValidate [entity]
         @ hook_calls BeforeCreate HookBeforeCreate [entity]
         @ [GormCreate (WithContext (db r)) (ident entity)]
         @ hook_calls AfterCreate HookAfterCreate [entity]))"
proof -
  have p1: "Validate entity = Some (Some err) \<longrightarrow>
      Create st r entity =
        (Some (GPAError ErrorTypeValidation ''validation failed'' (Some err)),
         [HookValidate (ident entity)])
      \<and> filter is_persistence (snd (Create st r entity)) = []"
    by (simp add: Create_def NewErrorWithCause_def)
  have p2: "hook_ok (Validate entity) \<and> BeforeCreate entity = Some (Some err) \<longrightarrow>
      Create st r entity =
        (Some (GPAError ErrorTypeValidation ''before create hook failed'' (Some err)),
         hook_calls Validate HookValidate [entity] @ [HookBeforeCreate (ident entity)])
      \<and> filter is_persistence (snd (Create st r entity)) = []"
    by (simp add: Create_def NewErrorWithCause_def call_hook_ok hook_calls_Cons)
  have p3: "hook_ok (Validate entity) \<and> hook_ok (BeforeCreate entity)
        \<and> Error (on_Create st (WithContext (db r)) entity) = None \<longrightarrow>
      Create st r entity =
        (None,
         hook_calls Validate HookValidate [entity]
         @ hook_calls BeforeCreate HookBeforeCreate [entity]
         @ [GormCreate (WithContext (db r)) (ident entity)]
         @ hook_calls AfterCreate HookAfterCreate [entity])"
    by (cases "AfterCreate entity")
       (simp_all add: Create_def call_hook_ok hook_calls_Cons Let_def)
  show ?thesis by (intro conjI) (rule p1, rule p2, rule p3)
qed

theorem Create_hook_lifecycle_witness:
  "Create ok_store user_repo
      ((hooked_entity 7)\<lparr>Validate := Some (Some (ErrorString ''name is required''))\<rparr>)
     = (Some (GPAError ErrorTypeValidation ''validation failed''
                (Some (ErrorString ''name is required''))),
        [HookValidate 7])
   \<and> Create ok_store user_repo
      ((hooked_entity 7)\<lparr>BeforeCreate := Some (Some (ErrorString ''quota exceeded''))\<rparr>)
     = (Some (GPAError ErrorTypeValidation ''before create hook failed''
                (Some (ErrorString ''quota exceeded''))),
        [HookValidate 7, HookBeforeCreate 7])
   \<and> Create ok_store user_repo
      ((hooked_entity 7)\<lparr>AfterCreate := Some (Some (ErrorString ''mail not sent''))\<rparr>)
     = (None, [HookValidate 7, HookBeforeCreate 7, GormCreate pool_db 7, HookAfterCreate 7])"
  using Create_hook_lifecycle
          [of "(hooked_entity 7)\<lparr>Validate := Some (Some (ErrorString ''name is required''))\<rparr>"
              "ErrorString ''name is required''" ok_store user_repo]
        Create_hook_lifecycle
          [of "(hooked_entity 7)\<lparr>BeforeCreate := Some (Some (ErrorString ''quota exceeded''))\<rparr>"
              "ErrorString ''quota exceeded''" ok_store user_repo]
        Create_hook_lifecycle
          [of "(hooked_entity 7)\<lparr>AfterCreate := Some (Some (ErrorString ''mail not sent''))\<rparr>"
              "ErrorString ''unused''" ok_store user_repo]
  by (simp add: hooked_entity_def ok_store_def user_repo_def pool_db_def WithContext_def
        hook_calls_def)

lemma validate_all_ok:
  "\<forall>x\<in>set es. hook_ok (Validate x) \<Longrightarrow>
   validate_all es = (None, hook_calls Validate HookValidate es)"
  by (induction es) (simp_all add: call_hook_ok hook_calls_Cons)

lemma validate_all_fails:
  "\<forall>x\<in>set pre. hook_ok (Validate x) \<Longrightarrow> Validate e = Some (Some err) \<Longrightarrow>
   validate_all (pre @ e # post) =
     (Some (GPAError ErrorTypeValidation ''validation failed'' (Some err)),
      hook_calls Validate HookValidate pre @ [HookValidate (ident e)])"
  by (induction pre) (simp_all add: call_hook_ok hook_calls_Cons NewErrorWithCause_def)

lemma before_create_all_ok:
  "\<forall>x\<in>set es. hook_ok (BeforeCreate x) \<Longrightarrow>
   before_create_all es = (None, hook_calls BeforeCreate HookBeforeCreate es)"
  by (induction es) (simp_all add: call_hook_ok hook_calls_Cons)

lemma before_create_all_fails:
  "\<forall>x\<in>set pre. hook_ok (BeforeCreate x) \<Longrightarrow> BeforeCreate e = Some (Some err) \<Longrightarrow>
   before_create_all (pre @ e # post) =
     (Some (GPAError ErrorTypeValidation ''before create hook failed'' (Some err)),
      hook_calls BeforeCreate HookBeforeCreate pre @ [HookBeforeCreate (ident e)])"
  by (induction pre) (simp_all add: call_hook_ok hook_calls_Cons NewErrorWithCause_def)

lemma after_create_all_calls:
  "after_create_all es = hook_calls AfterCreate HookAfterCreate es"
proof (induction es)
  case Nil
  show ?case by simp
next
  case (Cons e es)
  then show ?case by (cases "AfterCreate e") (simp_all add: hook_calls_Cons)
qed




lemma div_add_Suc: "0 < (b::nat) \<Longrightarrow> (k + b) div b = Suc (k div b)"
  apply (subst div_add_self2)
  apply simp_all
  done

lemma ceil_step:
  assumes "0 < (b::nat)" "i < n"
  shows "(n - i + b - 1) div b = Suc ((n - (i + b) + b - 1) div b)"
proof (cases "i + b \<le> n")
  case True
  have e: "n - i + b - 1 = (n - (i + b) + b - 1) + b" using True assms by linarith
  show ?thesis by (simp only: e div_add_Suc [OF assms(1)])
next
  case False
  have e: "n - i + b - 1 = (n - i - 1) + b" using assms by linarith
  have s: "n - i - 1 < b" using assms False by linarith
  have l: "(n - i + b - 1) div b = Suc 0"
    using s by (simp only: e div_add_Suc [OF assms(1)] div_less)
  have z: "n - (i + b) + b - 1 = b - 1" using False by linarith
  have "(b - 1) div b = 0" using assms(1) by (intro div_less) linarith
  then show ?thesis by (simp only: l z)
qed

lemma CreateInBatches_loop_ok:
  assumes "0 < b" and "\<forall>i s. Error (on_InsertBatch st d i s) = None"
  shows "Error (fst (CreateInBatches_loop st d v b i acc)) = None
     \<and> length (snd (CreateInBatches_loop st d v b i acc)) = (length v - i + b - 1) div b
     \<and> concat (map inserted_rows (snd (CreateInBatches_loop st d v b i acc))) = map ident (drop i v)
     \<and> (\<forall>ev\<in>set (snd (CreateInBatches_loop st d v b i acc)).
           is_persistence ev \<and> length (inserted_rows ev) \<le> b)"
  using assms
proof (induction st d v b i acc rule: CreateInBatches_loop.induct)
  case (1 st d v b i acc)
  show ?case
  proof (cases "i < length v")
    case False
    have "CreateInBatches_loop st d v b i acc = (\<lparr>Error = None, RowsAffected = acc\<rparr>, [])"
      using False by (subst CreateInBatches_loop.simps) simp
    moreover have "(length v - i + b - 1) div b = 0"
      using False "1.prems"(1) by (intro div_less) linarith
    ultimately show ?thesis using False by simp
  next
    case True
    define ends where "ends = (if i + b > length v then length v else i + b)"
    define sub where "sub = take (ends - i) (drop i v)"
    define subtx where "subtx = on_InsertBatch st d i sub"
    have ok: "Error subtx = None" using "1.prems" by (simp add: subtx_def)
    obtain res evs where rec:
      "CreateInBatches_loop st d v b (i + b) (acc + RowsAffected subtx) = (res, evs)"
      by (cases "CreateInBatches_loop st d v b (i + b) (acc + RowsAffected subtx)")
    have unfold: "CreateInBatches_loop st d v b i acc = (res, GormInsert d (map ident sub) # evs)"
      using True "1.prems"(1) ok rec
      by (subst CreateInBatches_loop.simps)
         (simp add: Let_def ends_def [symmetric] sub_def [symmetric] subtx_def [symmetric])
    have nz: "\<not> (b = 0 \<or> \<not> i < length v)" using True "1.prems"(1) by simp
    have IH: "Error res = None
       \<and> length evs = (length v - (i + b) + b - 1) div b
       \<and> concat (map inserted_rows evs) = map ident (drop (i + b) v)
       \<and> (\<forall>ev\<in>set evs. is_persistence ev \<and> length (inserted_rows ev) \<le> b)"
      using "1.IH" [OF nz ends_def sub_def subtx_def refl _ "1.prems"] ok rec
      by simp
    have sub_eq: "sub = take b (drop i v)"
      by (auto simp: sub_def ends_def)
    have cat: "map ident sub @ map ident (drop (i + b) v) = map ident (drop i v)"
      by (metis sub_eq add.commute append_take_drop_id drop_drop map_append)
    have len: "length sub \<le> b" by (simp add: sub_eq)
    show ?thesis
      using IH ceil_step [OF "1.prems"(1) True] cat len by (simp add: unfold)
  qed
qed

lemma hook_calls_no_rows:
  "concat (map inserted_rows (hook_calls h HookValidate es)) = []"
  "concat (map inserted_rows (hook_calls h HookBeforeCreate es)) = []"
  "concat (map inserted_rows (hook_calls h HookAfterCreate es)) = []"
  by (induction es) (simp_all add: hook_calls_Cons)

lemma hook_calls_rows_bound:
  "\<forall>ev\<in>set (hook_calls h HookValidate es). length (inserted_rows ev) \<le> n"
  "\<forall>ev\<in>set (hook_calls h HookBeforeCreate es). length (inserted_rows ev) \<le> n"
  "\<forall>ev\<in>set (hook_calls h HookAfterCreate es). length (inserted_rows ev) \<le> n"
  by (auto simp: hook_calls_def)

lemma filter_all_persistence:
  "\<forall>ev\<in>set evs. is_persistence ev \<and> P ev \<Longrightarrow> filter is_persistence evs = evs"
  by (induction evs) simp_all

text \<open>The trace of the batched insert when every write succeeds and the transaction opens.\<close>

lemma CreateInBatches_trace:
  assumes b: "0 < b"
    and ok: "\<forall>h i s. Error (on_InsertBatch st h i s) = None"
    and opens: "length v \<le> b \<or> transaction_opens st d"
  shows "\<exists>h pre post.
           snd (CreateInBatches st d v b) = pre @ snd (CreateInBatches_loop st h v b 0 0) @ post
           \<and> filter is_persistence pre = [] \<and> filter is_persistence post = []
           \<and> concat (map inserted_rows pre) = [] \<and> concat (map inserted_rows post) = []
           \<and> (\<forall>ev\<in>set (pre @ post). length (inserted_rows ev) \<le> b)"
proof (cases "length v \<le> b")
  case True
  then have "snd (CreateInBatches st d v b) = [] @ snd (CreateInBatches_loop st d v b 0 0) @ []"
    by (simp add: CreateInBatches_def)
  then show ?thesis by (intro exI [of _ d] exI [of _ "[]"]) simp
next
  case False
  then have op: "transaction_opens st d" using opens by simp
  show ?thesis
  proof (cases "Conn d")
    case SqlDB
    let ?h = "d\<lparr>Conn := SqlTx\<rparr>"
    have e: "Error (fst (CreateInBatches_loop st ?h v b 0 0)) = None"
      using CreateInBatches_loop_ok [OF b, of st ?h v 0 0] ok by simp
    have "snd (CreateInBatches st d v b) =
            [GormBegin] @ snd (CreateInBatches_loop st ?h v b 0 0)
            @ (if on_Commit st ?h = None then [GormCommit] else [GormCommit, GormRollback])"
      using False SqlDB op e
      by (cases "CreateInBatches_loop st ?h v b 0 0"; cases "on_Commit st ?h")
         (simp_all add: CreateInBatches_def gorm_Transaction_def transaction_opens_def Let_def)
    then show ?thesis
      by (intro exI [of _ ?h] exI [of _ "[GormBegin]"]
            exI [of _ "if on_Commit st ?h = None then [GormCommit] else [GormCommit, GormRollback]"])
         simp
  next
    case SqlTx
    have e: "Error (fst (CreateInBatches_loop st d v b 0 0)) = None"
      using CreateInBatches_loop_ok [OF b, of st d v 0 0] ok by simp
    have "snd (CreateInBatches st d v b) =
            [GormSavePoint] @ snd (CreateInBatches_loop st d v b 0 0) @ []"
      using False SqlTx op e
      by (cases "CreateInBatches_loop st d v b 0 0")
         (simp_all add: CreateInBatches_def gorm_Transaction_def transaction_opens_def)
    then show ?thesis
      by (intro exI [of _ d] exI [of _ "[GormSavePoint]"] exI [of _ "[]"]) simp
  qed
qed

lemma CreateInBatches_writes:
  assumes b: "0 < b"
    and ok: "\<forall>h i s. Error (on_InsertBatch st h i s) = None"
    and opens: "length v \<le> b \<or> transaction_opens st d"
  shows "length (filter is_persistence (snd (CreateInBatches st d v b))) = (length v + b - 1) div b"
    and "concat (map inserted_rows (snd (CreateInBatches st d v b))) = map ident v"
    and "\<forall>ev\<in>set (snd (CreateInBatches st d v b)). length (inserted_rows ev) \<le> b"
proof -
  obtain h pre post where t:
    "snd (CreateInBatches st d v b) = pre @ snd (CreateInBatches_loop st h v b 0 0) @ post"
    "filter is_persistence pre = []" "filter is_persistence post = []"
    "concat (map inserted_rows pre) = []" "concat (map inserted_rows post) = []"
    "\<forall>ev\<in>set (pre @ post). length (inserted_rows ev) \<le> b"
    using CreateInBatches_trace [OF assms] by blast
  have okh: "\<forall>i s. Error (on_InsertBatch st h i s) = None" using ok by simp
  note l = CreateInBatches_loop_ok [OF b okh, of v 0 0]
  have f: "filter is_persistence (snd (CreateInBatches_loop st h v b 0 0)) =
             snd (CreateInBatches_loop st h v b 0 0)"
    using conjunct2 [OF conjunct2 [OF conjunct2 [OF l]]] by (rule filter_all_persistence)
  show "length (filter is_persistence (snd (CreateInBatches st d v b))) = (length v + b - 1) div b"
    using l by (simp add: t f)
  show "concat (map inserted_rows (snd (CreateInBatches st d v b))) = map ident v"
    using l by (simp add: t)
  show "\<forall>ev\<in>set (snd (CreateInBatches st d v b)). length (inserted_rows ev) \<le> b"
    using l t(6) by (auto simp: t(1))
qed

lemma CreateInBatches_succeeds:
  assumes b: "0 < b"
    and ok: "\<forall>h i s. Error (on_InsertBatch st h i s) = None"
    and opens: "length v \<le> b \<or> transaction_opens st d"
    and closes: "length v \<le> b \<or> transaction_closes st d"
  shows "Error (fst (CreateInBatches st d v b)) = None"
proof (cases "length v \<le> b")
  case True
  then show ?thesis
    using CreateInBatches_loop_ok [OF b, of st d v 0 0] ok by (simp add: CreateInBatches_def)
next
  case False
  let ?h = "d\<lparr>Conn := SqlTx\<rparr>"
  have e: "Error (fst (CreateInBatches_loop st ?h v b 0 0)) = None"
    using CreateInBatches_loop_ok [OF b, of st ?h v 0 0] ok by simp
  have e': "Error (fst (CreateInBatches_loop st d v b 0 0)) = None"
    using CreateInBatches_loop_ok [OF b, of st d v 0 0] ok by simp
  show ?thesis
    using False opens closes e e'
    by (cases "Conn d"; cases "CreateInBatches_loop st ?h v b 0 0";
        cases "CreateInBatches_loop st d v b 0 0")
       (simp_all add: CreateInBatches_def gorm_Transaction_def transaction_opens_def
          transaction_closes_def Let_def)
qed

lemma CreateBatch_hooks_pass:
  assumes "\<forall>x\<in>set es. hook_ok (Validate x) \<and> hook_ok (BeforeCreate x)"
  shows "CreateBatch st r es =
        (convertGormError (Error (fst (CreateInBatches st (WithContext (db r)) es 100))),
         hook_calls Validate HookValidate es
         @ hook_calls BeforeCreate HookBeforeCreate es
         @ snd (CreateInBatches st (WithContext (db r)) es 100)
         @ (if Error (fst (CreateInBatches st (WithContext (db r)) es 100)) = None
            then hook_calls AfterCreate HookAfterCreate es else []))"
proof -
  have v: "validate_all es = (None, hook_calls Validate HookValidate es)"
    using assms by (intro validate_all_ok) simp
  have b: "before_create_all es = (None, hook_calls BeforeCreate HookBeforeCreate es)"
    using assms by (intro before_create_all_ok) simp
  show ?thesis
    by (cases "CreateInBatches st (WithContext (db r)) es 100")
       (auto simp: CreateBatch_def v b after_create_all_calls)
qed

lemma CreateBatch_writes:
  assumes h: "\<forall>x\<in>set es. hook_ok (Validate x) \<and> hook_ok (BeforeCreate x)"
    and ok: "\<forall>h i s. Error (on_InsertBatch st h i s) = None"
    and opens: "length es \<le> 100 \<or> transaction_opens st (WithContext (db r))"
  shows "length (filter is_persistence (snd (CreateBatch st r es))) = (length es + 99) div 100
      \<and> concat (map inserted_rows (snd (CreateBatch st r es))) = map ident es
      \<and> (\<forall>ev\<in>set (snd (CreateBatch st r es)). length (inserted_rows ev) \<le> 100)"
proof -
  have pos: "0 < (100::nat)" by simp
  note w = CreateInBatches_writes [OF pos ok opens]
  note cb = CreateBatch_hooks_pass [OF h, of st r]
  have "length (filter is_persistence (snd (CreateBatch st r es))) = (length es + 99) div 100"
    using w(1) by (simp add: cb hook_calls_not_persistence add.commute)
  moreover have "concat (map inserted_rows (snd (CreateBatch st r es))) = map ident es"
    by (cases "Error (fst (CreateInBatches st (WithContext (db r)) es 100)) = None")
       (auto simp: cb w(2) hook_calls_no_rows)
  moreover have "\<forall>ev\<in>set (snd (CreateBatch st r es)). length (inserted_rows ev) \<le> 100"
    using w(3) hook_calls_rows_bound [of _ es 100]
    by (auto simp: cb)
  ultimately show ?thesis by simp
qed

lemma CreateBatch_succeeds:
  assumes h: "\<forall>x\<in>set es. hook_ok (Validate x) \<and> hook_ok (BeforeCreate x)"
    and ok: "\<forall>h i s. Error (on_InsertBatch st h i s) = None"
    and opens: "length es \<le> 100 \<or> transaction_opens st (WithContext (db r))"
    and closes: "length es \<le> 100 \<or> transaction_closes st (WithContext (db r))"
  shows "CreateBatch st r es =
        (None,
         hook_calls Validate HookValidate es
         @ hook_calls BeforeCreate HookBeforeCreate es
         @ snd (CreateInBatches st (WithContext (db r)) es 100)
         @ hook_calls AfterCreate HookAfterCreate es)"
proof -
  have pos: "0 < (100::nat)" by simp
  have e: "Error (fst (CreateInBatches st (WithContext (db r)) es 100)) = None"
    by (rule CreateInBatches_succeeds [OF pos ok opens closes])
  show ?thesis by (simp add: CreateBatch_hooks_pass [OF h, of st r] e)
qed

text \<open>
  C5. \<open>CreateBatch\<close> validates the entities in order and stops at the first failing
  \<open>Validate\<close>, before any \<open>BeforeCreate\<close> and any write; it then runs \<open>BeforeCreate\<close>
  in order and stops at the first failure, still before any write; it then hands all
  entities to one \<open>CreateInBatches\<close> call with batch size 100 and, if that succeeds,
  runs \<open>AfterCreate\<close> on every entity and returns nil whatever those hooks return.
  When every physical write succeeds and, for more than 100 entities, the transaction
  that gorm puts around the sub-batches opens, the writes number \<open>(N + 99) div 100\<close>,
  the ceiling of \<open>N / 100\<close>, each carries at most 100 rows, and together they carry
  the entities in order. When that transaction can also be closed, the call returns
  nil after an \<open>AfterCreate\<close> pass over all entities.
\<close>

theorem CreateBatch_phases:
  "((\<forall>x\<in>set pre. hook_ok (Validate x)) \<and> Validate e = Some (Some err) \<longrightarrow>
      CreateBatch st r (pre @ e # post) =
        (Some (GPAError ErrorTypeValidation ''validation failed'' (Some err)),
         hook_calls Validate HookValidate pre @ [HookValidate (ident e)])
      \<and> filter is_persistence (snd (CreateBatch st r (pre @ e # post))) = [])
   \<and> ((\<forall>x\<in>set (pre @ e # post). hook_ok (Validate x))
        \<and> (\<forall>x\<in>set pre. hook_ok (BeforeCreate x)) \<and> BeforeCreate e = Some (Some err) \<longrightarrow>
      CreateBatch st r (pre @ e # post) =
        (Some (GPAError ErrorTypeValidation ''before create hook failed'' (Some err)),
         hook_calls Validate HookValidate (pre @ e # post)
         @ hook_calls BeforeCreate HookBeforeCreate pre @ [HookBeforeCreate (ident e)])
      \<and> filter is_persistence (snd (CreateBatch st r (pre @ e # post))) = [])
   \<and> ((\<forall>x\<in>set es. hook_ok (Validate x) \<and> hook_ok (BeforeCreate x)) \<longrightarrow>
      CreateBatch st r es =
        (convertGormError (Error (fst (CreateInBatches st (WithContext (db r)) es 100))),
         hook_calls Validate HookValidate es
         @ hook_calls BeforeCreate HookBeforeCreate es
         @ snd (CreateInBatches st (WithContext (db r)) es 100)
         @ (if Error (fst (CreateInBatches st (WithContext (db r)) es 100)) = None
            then hook_calls AfterCreate HookAfterCreate es else [])))
   \<and> ((\<forall>x\<in>set es. hook_ok (Validate x) \<and> hook_ok (BeforeCreate x))
        \<and> (\<forall>h i s. Error (on_InsertBatch st h i s) = None)
        \<and> (length es \<le> 100 \<or> transaction_opens st (WithContext (db r))) \<longrightarrow>
      length (filter is_persistence (snd (CreateBatch st r es))) = (length es + 99) div 100
      \<and> concat (map inserted_rows (snd (CreateBatch st r es))) = map ident es
      \<and> (\<forall>ev\<in>set (snd (CreateBatch st r es)). length (inserted_rows ev) \<le> 100))
   \<and> ((\<forall>x\<in>set es. hook_ok (Validate x) \<and> hook_ok (BeforeCreate x))
        \<and> (\<forall>h i s. Error (on_InsertBatch st h i s) = None)
        \<and> (length es \<le> 100 \<or> transaction_opens st (WithContext (db r)))
        \<and> (length es \<le> 100 \<or> transaction_closes st (WithContext (db r))) \<longrightarrow>
      CreateBatch st r es =
        (None,
         hook_calls Validate HookValidate es
         @ hook_calls BeforeCreate HookBeforeCreate es
         @ snd (CreateInBatches st (WithContext (db r)) es 100)
         @ hook_calls AfterCreate HookAfterCreate es))"
proof -
  have p1: "(\<forall>x\<in>set pre. hook_ok (Validate x)) \<and> Validate e = Some (Some err) \<longrightarrow>
      CreateBatch st r (pre @ e # post) =
        (Some (GPAError ErrorTypeValidation ''validation failed'' (Some err)),
         hook_calls Validate HookValidate pre @ [HookValidate (ident e)])
      \<and> filter is_persistence (snd (CreateBatch st r (pre @ e # post))) = []"
    by (simp add: CreateBatch_def validate_all_fails hook_calls_not_persistence)
  have p2: "(\<forall>x\<in>set (pre @ e # post). hook_ok (Validate x))
        \<and> (\<forall>x\<in>set pre. hook_ok (BeforeCreate x)) \<and> BeforeCreate e = Some (Some err) \<longrightarrow>
      CreateBatch st r (pre @ e # post) =
        (Some (GPAError ErrorTypeValidation ''before create hook failed'' (Some err)),
         hook_calls Validate HookValidate (pre @ e # post)
         @ hook_calls BeforeCreate HookBeforeCreate pre @ [HookBeforeCreate (ident e)])
      \<and> filter is_persistence (snd (CreateBatch st r (pre @ e # post))) = []"
  proof
    assume a: "(\<forall>x\<in>set (pre @ e # post). hook_ok (Validate x))
        \<and> (\<forall>x\<in>set pre. hook_ok (BeforeCreate x)) \<and> BeforeCreate e = Some (Some err)"
    then have "validate_all (pre @ e # post) =
        (None, hook_calls Validate HookValidate (pre @ e # post))"
      by (intro validate_all_ok) simp
    then show "CreateBatch st r (pre @ e # post) =
        (Some (GPAError ErrorTypeValidation ''before create hook failed'' (Some err)),
         hook_calls Validate HookValidate (pre @ e # post)
         @ hook_calls BeforeCreate HookBeforeCreate pre @ [HookBeforeCreate (ident e)])
      \<and> filter is_persistence (snd (CreateBatch st r (pre @ e # post))) = []"
      using a
      by (simp add: CreateBatch_def before_create_all_fails hook_calls_not_persistence
            hook_calls_Cons)
  qed
  have p3: "(\<forall>x\<in>set es. hook_ok (Validate x) \<and> hook_ok (BeforeCreate x)) \<longrightarrow>
      CreateBatch st r es =
        (convertGormError (Error (fst (CreateInBatches st (WithContext (db r)) es 100))),
         hook_calls Validate HookValidate es
         @ hook_calls BeforeCreate HookBeforeCreate es
         @ snd (CreateInBatches st (WithContext (db r)) es 100)
         @ (if Error (fst (CreateInBatches st (WithContext (db r)) es 100)) = None
            then hook_calls AfterCreate HookAfterCreate es else []))"
    using CreateBatch_hooks_pass [of es st r] by (rule impI)
  have p4: "(\<forall>x\<in>set es. hook_ok (Validate x) \<and> hook_ok (BeforeCreate x))
        \<and> (\<forall>h i s. Error (on_InsertBatch st h i s) = None)
        \<and> (length es \<le> 100 \<or> transaction_opens st (WithContext (db r))) \<longrightarrow>
      length (filter is_persistence (snd (CreateBatch st r es))) = (length es + 99) div 100
      \<and> concat (map inserted_rows (snd (CreateBatch st r es))) = map ident es
      \<and> (\<forall>ev\<in>set (snd (CreateBatch st r es)). length (inserted_rows ev) \<le> 100)"
    using CreateBatch_writes [of es st r] by blast
  have p5: "(\<forall>x\<in>set es. hook_ok (Validate x) \<and> hook_ok (BeforeCreate x))
        \<and> (\<forall>h i s. Error (on_InsertBatch st h i s) = None)
        \<and> (length es \<le> 100 \<or> transaction_opens st (WithContext (db r)))
        \<and> (length es \<le> 100 \<or> transaction_closes st (WithContext (db r))) \<longrightarrow>
      CreateBatch st r es =
        (None,
         hook_calls Validate HookValidate es
         @ hook_calls BeforeCreate HookBeforeCreate es
         @ snd (CreateInBatches st (WithContext (db r)) es 100)
         @ hook_calls AfterCreate HookAfterCreate es)"
    using CreateBatch_succeeds [of es st r] by blast
  show ?thesis by (intro conjI) (rule p1, rule p2, rule p3, rule p4, rule p5)
qed

theorem CreateBatch_phases_witness:
  "CreateBatch ok_store user_repo
      ([hooked_entity 1]
       @ (hooked_entity 2)\<lparr>Validate := Some (Some (ErrorString ''name is required''))\<rparr>
       # [hooked_entity 3])
     = (Some (GPAError ErrorTypeValidation ''validation failed''
                (Some (ErrorString ''name is required''))),
        [HookValidate 1, HookValidate 2])
   \<and> CreateBatch ok_store user_repo
      ([hooked_entity 1]
       @ (hooked_entity 2)\<lparr>BeforeCreate := Some (Some (ErrorString ''quota exceeded''))\<rparr>
       # [hooked_entity 3])
     = (Some (GPAError ErrorTypeValidation ''before create hook failed''
                (Some (ErrorString ''quota exceeded''))),
        [HookValidate 1, HookValidate 2, HookValidate 3, HookBeforeCreate 1, HookBeforeCreate 2])
   \<and> fst (CreateBatch ok_store user_repo
             (map (\<lambda>n. (hooked_entity n)\<lparr>AfterCreate := Some (Some (ErrorString ''mail not sent''))\<rparr>)
                [0..<101])) = None
   \<and> length (filter is_persistence (snd (CreateBatch ok_store user_repo
             (map (\<lambda>n. (hooked_entity n)\<lparr>AfterCreate := Some (Some (ErrorString ''mail not sent''))\<rparr>)
                [0..<101])))) = 2
   \<and> length (filter is_persistence (snd (CreateBatch ok_store user_repo
             (map hooked_entity [0..<100])))) = 1
   \<and> length (filter is_persistence (snd (CreateBatch ok_store tx_repo
             (map hooked_entity [0..<101])))) = 2"
proof -
  let ?bad_v = "(hooked_entity 2)\<lparr>Validate := Some (Some (ErrorString ''name is required''))\<rparr>"
  let ?bad_b = "(hooked_entity 2)\<lparr>BeforeCreate := Some (Some (ErrorString ''quota exceeded''))\<rparr>"
  let ?es = "map (\<lambda>n. (hooked_entity n)\<lparr>AfterCreate := Some (Some (ErrorString ''mail not sent''))\<rparr>)
                [0..<101]"
  have a: "CreateBatch ok_store user_repo ([hooked_entity 1] @ ?bad_v # [hooked_entity 3])
     = (Some (GPAError ErrorTypeValidation ''validation failed''
                (Some (ErrorString ''name is required''))),
        [HookValidate 1, HookValidate 2])"
    using CreateBatch_phases [of "[hooked_entity 1]" ?bad_v "ErrorString ''name is required''"
            ok_store user_repo "[hooked_entity 3]" "[]"]
    by (simp add: hooked_entity_def hook_calls_def)
  have b: "CreateBatch ok_store user_repo ([hooked_entity 1] @ ?bad_b # [hooked_entity 3])
     = (Some (GPAError ErrorTypeValidation ''before create hook failed''
                (Some (ErrorString ''quota exceeded''))),
        [HookValidate 1, HookValidate 2, HookValidate 3, HookBeforeCreate 1, HookBeforeCreate 2])"
    using CreateBatch_phases [of "[hooked_entity 1]" ?bad_b "ErrorString ''quota exceeded''"
            ok_store user_repo "[hooked_entity 3]" "[]"]
    by (simp add: hooked_entity_def hook_calls_def)
  have h: "\<forall>x\<in>set ?es. hook_ok (Validate x) \<and> hook_ok (BeforeCreate x)"
    by (simp add: hooked_entity_def)
  have w: "\<forall>h i s. Error (on_InsertBatch ok_store h i s) = None"
    by (simp add: ok_store_def)
  have o: "length ?es \<le> 100 \<or> transaction_opens ok_store (WithContext (db user_repo))"
    by (simp add: transaction_opens_def ok_store_def user_repo_def pool_db_def WithContext_def)
  have cl: "length ?es \<le> 100 \<or> transaction_closes ok_store (WithContext (db user_repo))"
    by (simp add: transaction_closes_def ok_store_def user_repo_def pool_db_def WithContext_def)
  have n: "(length ?es + 99) div 100 = 2" by simp
  note inst = CreateBatch_phases [of "[]" "hooked_entity 0" "ErrorString ''unused''"
                  ok_store user_repo "[]" ?es]
  note q4 = conjunct1 [OF conjunct2 [OF conjunct2 [OF conjunct2 [OF inst]]]]
  note q5 = conjunct2 [OF conjunct2 [OF conjunct2 [OF conjunct2 [OF inst]]]]
  have c1: "length (filter is_persistence (snd (CreateBatch ok_store user_repo ?es))) = 2"
    using mp [OF q4 conjI [OF h conjI [OF w o]]] by (simp only: n)
  have c0: "fst (CreateBatch ok_store user_repo ?es) = None"
    using mp [OF q5 conjI [OF h conjI [OF w conjI [OF o cl]]]] by (simp only: fst_conv)
  have h': "\<forall>x\<in>set (map hooked_entity [0..<100]).
      hook_ok (Validate x) \<and> hook_ok (BeforeCreate x)"
    by (simp add: hooked_entity_def)
  have o': "length (map hooked_entity [0..<100]) \<le> 100
      \<or> transaction_opens ok_store (WithContext (db user_repo))"
    by simp
  have n': "(length (map hooked_entity [0..<100]) + 99) div 100 = 1" by simp
  have d: "length (filter is_persistence (snd (CreateBatch ok_store user_repo
             (map hooked_entity [0..<100])))) = 1"
    using mp [OF conjunct1 [OF conjunct2 [OF conjunct2 [OF conjunct2
            [OF CreateBatch_phases [of "[]" "hooked_entity 0" "ErrorString ''unused''"
                  ok_store user_repo "[]" "map hooked_entity [0..<100]"]]]]]
            conjI [OF h' conjI [OF w o']]]
    by (simp only: n')
  have h'': "\<forall>x\<in>set (map hooked_entity [0..<101]).
      hook_ok (Validate x) \<and> hook_ok (BeforeCreate x)"
    by (simp add: hooked_entity_def)
  have o'': "length (map hooked_entity [0..<101]) \<le> 100
      \<or> transaction_opens ok_store (WithContext (db tx_repo))"
    by (simp add: transaction_opens_def ok_store_def tx_repo_def WithContext_def)
  have n'': "(length (map hooked_entity [0..<101]) + 99) div 100 = 2" by simp
  have e: "length (filter is_persistence (snd (CreateBatch ok_store tx_repo
             (map hooked_entity [0..<101])))) = 2"
    using mp [OF conjunct1 [OF conjunct2 [OF conjunct2 [OF conjunct2
            [OF CreateBatch_phases [of "[]" "hooked_entity 0" "ErrorString ''unused''"
                  ok_store tx_repo "[]" "map hooked_entity [0..<101]"]]]]]
            conjI [OF h'' conjI [OF w o'']]]
    by (simp only: n'')
  show ?thesis using a b c0 c1 d e by blast
qed

section \<open>Properties of UpdatePartial and Delete\<close>

text \<open>
  C6. A mutation targeted by primary key that the store reports as free of error and
  as affecting zero rows returns the \<open>NotFound\<close> error \<open>entity not found\<close>: so
  \<open>UpdatePartial\<close>, and so \<open>Delete\<close> once it has loaded the entity and the
  \<open>BeforeDelete\<close> hook has passed, which is when it issues the delete.
\<close>

theorem zero_rows_is_NotFound:
  "(Error (on_Updates st (db_Where (db_Model (WithContext (db r))) ''id = ?'' [pk]) updates) = None
    \<and> RowsAffected (on_Updates st (db_Where (db_Model (WithContext (db r))) ''id = ?'' [pk]) updates) = 0
    \<longrightarrow> fst (UpdatePartial st r pk updates) =
          Some (GPAError ErrorTypeNotFound ''entity not found'' None))
   \<and> (Error (fst (on_First st (WithContext (db r)) pk)) = None
      \<and> hook_ok (BeforeDelete (snd (on_First st (WithContext (db r)) pk)))
      \<and> Error (on_Delete st (WithContext (db r)) pk) = None
      \<and> RowsAffected (on_Delete st (WithContext (db r)) pk) = 0
    \<longrightarrow> fst (Delete st r pk) = Some (GPAError ErrorTypeNotFound ''entity not found'' None))"
proof -
  have p1: "Error (on_Updates st (db_Where (db_Model (WithContext (db r))) ''id = ?'' [pk]) updates) = None
    \<and> RowsAffected (on_Updates st (db_Where (db_Model (WithContext (db r))) ''id = ?'' [pk]) updates) = 0
    \<longrightarrow> fst (UpdatePartial st r pk updates) =
          Some (GPAError ErrorTypeNotFound ''entity not found'' None)"
    by (simp add: UpdatePartial_def Let_def)
  have p2: "Error (fst (on_First st (WithContext (db r)) pk)) = None
      \<and> hook_ok (BeforeDelete (snd (on_First st (WithContext (db r)) pk)))
      \<and> Error (on_Delete st (WithContext (db r)) pk) = None
      \<and> RowsAffected (on_Delete st (WithContext (db r)) pk) = 0
    \<longrightarrow> fst (Delete st r pk) = Some (GPAError ErrorTypeNotFound ''entity not found'' None)"
    by (cases "on_First st (WithContext (db r)) pk")
       (simp add: Delete_def Let_def call_hook_ok)
  show ?thesis by (intro conjI) (rule p1, rule p2)
qed

theorem zero_rows_is_NotFound_witness:
  "fst (UpdatePartial no_row_store user_repo (IntValue 999) [(''age'', IntValue 31)]) =
     Some (GPAError ErrorTypeNotFound ''entity not found'' None)
   \<and> fst (Delete no_row_store user_repo (IntValue 999)) =
     Some (GPAError ErrorTypeNotFound ''entity not found'' None)"
  using zero_rows_is_NotFound [of no_row_store user_repo "IntValue 999" "[(''age'', IntValue 31)]"]
  by (simp add: no_row_store_def ok_store_def hooked_entity_def)

section \<open>Properties of Transaction\<close>

text \<open>
  C7. The claim: \<open>Transaction\<close> commits if and only if the caller's function returns
  no error. On the repository that \<open>Transaction\<close> itself hands to the caller's
  function, whose handle is already transactional, a nested \<open>Transaction\<close> sets a
  savepoint: the function returns nil and nothing is committed.
\<close>

theorem Transaction_nested_never_commits_counterexample:
  "fst (passing_caller \<lparr>Repository = tx_repo\<rparr>) = None
   \<and> Transaction ok_store tx_repo passing_caller =
       (None,
        [GormSavePoint,
         CallerFunction [HookValidate 1, HookBeforeCreate 1,
                         GormCreate \<lparr>Conn = SqlTx, Statement = []\<rparr> 1, HookAfterCreate 1]])
   \<and> GormCommit \<notin> set (snd (Transaction ok_store tx_repo passing_caller))"
  by (simp add: Transaction_def gorm_Transaction_def passing_caller_def Create_def ok_store_def
        tx_repo_def hooked_entity_def WithContext_def Let_def)

text \<open>
  C7, amended. On a repository bound to the connection pool, once \<open>Begin\<close> has
  succeeded, \<open>Transaction\<close> calls the caller's function with a repository whose handle
  is the transactional one and whose provider is that of the receiver; if the function
  returns nil the transaction is committed and the result is that of the commit; if
  it returns an error the transaction is rolled back and exactly that error is the
  result, whatever error it is, neither wrapped nor classified; the transaction is
  committed if and only if the function returned nil. On a repository whose handle is
  already transactional, once the savepoint is set, the function is called with a
  repository on that same handle, nothing is committed, and an error of the function
  is the result, unchanged, after a rollback to the savepoint. When \<open>Begin\<close>, or
  setting the savepoint, fails, the function is not called and that error is the
  result.
\<close>

theorem Transaction_paths:
  assumes "d = WithContext (db r)"
    and "txRepo = \<lparr>Repository = \<lparr>db = d\<lparr>Conn := SqlTx\<rparr>, provider = provider r\<rparr>\<rparr>"
  shows "(Conn d = SqlDB \<and> on_Begin st d = None \<longrightarrow>
            (fst (fn txRepo) = None \<longrightarrow>
               Transaction st r fn =
                 (on_Commit st (d\<lparr>Conn := SqlTx\<rparr>),
                  [GormBegin, CallerFunction (snd (fn txRepo)), GormCommit]
                  @ (if on_Commit st (d\<lparr>Conn := SqlTx\<rparr>) = None then [] else [GormRollback])))
          \<and> (fst (fn txRepo) = Some e \<longrightarrow>
               Transaction st r fn =
                 (Some e, [GormBegin, CallerFunction (snd (fn txRepo)), GormRollback]))
          \<and> (GormCommit \<in> set (snd (Transaction st r fn)) \<longleftrightarrow> fst (fn txRepo) = None))
       \<and> (Conn d = SqlTx \<and> on_SavePoint st d = None \<longrightarrow>
            (fst (fn txRepo) = None \<longrightarrow>
               Transaction st r fn = (None, [GormSavePoint, CallerFunction (snd (fn txRepo))]))
          \<and> (fst (fn txRepo) = Some e \<longrightarrow>
               Transaction st r fn =
                 (Some e, [GormSavePoint, CallerFunction (snd (fn txRepo)), GormRollbackTo]))
          \<and> GormCommit \<notin> set (snd (Transaction st r fn)))
       \<and> (Conn d = SqlDB \<and> on_Begin st d = Some e \<longrightarrow>
            Transaction st r fn = (Some e, [GormBegin]))
       \<and> (Conn d = SqlTx \<and> on_SavePoint st d = Some e \<longrightarrow>
            Transaction st r fn = (Some e, [GormSavePoint]))"
proof -
  have same: "Conn d = SqlTx \<Longrightarrow> d\<lparr>Conn := SqlTx\<rparr> = d" by (cases d) simp
  have pool: "Conn d = SqlDB \<and> on_Begin st d = None \<longrightarrow>
            (fst (fn txRepo) = None \<longrightarrow>
               Transaction st r fn =
                 (on_Commit st (d\<lparr>Conn := SqlTx\<rparr>),
                  [GormBegin, CallerFunction (snd (fn txRepo)), GormCommit]
                  @ (if on_Commit st (d\<lparr>Conn := SqlTx\<rparr>) = None then [] else [GormRollback])))
          \<and> (fst (fn txRepo) = Some e \<longrightarrow>
               Transaction st r fn =
                 (Some e, [GormBegin, CallerFunction (snd (fn txRepo)), GormRollback]))
          \<and> (GormCommit \<in> set (snd (Transaction st r fn)) \<longleftrightarrow> fst (fn txRepo) = None)"
    using assms
    by (cases "fn txRepo"; cases "fst (fn txRepo)"; cases "on_Commit st (d\<lparr>Conn := SqlTx\<rparr>)")
       (auto simp: Transaction_def gorm_Transaction_def Let_def)
  have nested: "Conn d = SqlTx \<and> on_SavePoint st d = None \<longrightarrow>
            (fst (fn txRepo) = None \<longrightarrow>
               Transaction st r fn = (None, [GormSavePoint, CallerFunction (snd (fn txRepo))]))
          \<and> (fst (fn txRepo) = Some e \<longrightarrow>
               Transaction st r fn =
                 (Some e, [GormSavePoint, CallerFunction (snd (fn txRepo)), GormRollbackTo]))
          \<and> GormCommit \<notin> set (snd (Transaction st r fn))"
  proof
    assume a: "Conn d = SqlTx \<and> on_SavePoint st d = None"
    then have t: "txRepo = \<lparr>Repository = \<lparr>db = d, provider = provider r\<rparr>\<rparr>"
      using assms(2) same by simp
    show "(fst (fn txRepo) = None \<longrightarrow>
               Transaction st r fn = (None, [GormSavePoint, CallerFunction (snd (fn txRepo))]))
          \<and> (fst (fn txRepo) = Some e \<longrightarrow>
               Transaction st r fn =
                 (Some e, [GormSavePoint, CallerFunction (snd (fn txRepo)), GormRollbackTo]))
          \<and> GormCommit \<notin> set (snd (Transaction st r fn))"
      using a assms(1) t
      by (cases "fn txRepo"; cases "fst (fn txRepo)")
         (auto simp: Transaction_def gorm_Transaction_def Let_def)
  qed
  have no_begin: "Conn d = SqlDB \<and> on_Begin st d = Some e \<longrightarrow>
            Transaction st r fn = (Some e, [GormBegin])"
    using assms(1) by (simp add: Transaction_def gorm_Transaction_def)
  have no_savepoint: "Conn d = SqlTx \<and> on_SavePoint st d = Some e \<longrightarrow>
            Transaction st r fn = (Some e, [GormSavePoint])"
    using assms(1) by (simp add: Transaction_def gorm_Transaction_def)
  show ?thesis by (intro conjI) (rule pool, rule nested, rule no_begin, rule no_savepoint)
qed

theorem Transaction_paths_witness:
  "Transaction ok_store user_repo failing_caller =
     (Some (GPAError ErrorTypeValidation ''test error'' None),
      [GormBegin,
       CallerFunction [HookValidate 1, HookBeforeCreate 1,
                       GormCreate \<lparr>Conn = SqlTx, Statement = []\<rparr> 1, HookAfterCreate 1],
       GormRollback])
   \<and> Transaction ok_store user_repo passing_caller =
     (None,
      [GormBegin,
       CallerFunction [HookValidate 1, HookBeforeCreate 1,
                       GormCreate \<lparr>Conn = SqlTx, Statement = []\<rparr> 1, HookAfterCreate 1],
       GormCommit])
   \<and> Transaction ok_store user_repo raw_caller =
     (Some ErrRecordNotFound, [GormBegin, CallerFunction [], GormRollback])
   \<and> Transaction ok_store tx_repo raw_caller =
     (Some ErrRecordNotFound, [GormSavePoint, CallerFunction [], GormRollbackTo])
   \<and> Transaction closed_store user_repo passing_caller =
     (Some (ErrorString ''connection refused''), [GormBegin])
   \<and> Transaction closed_store tx_repo passing_caller =
     (Some (ErrorString ''connection refused''), [GormSavePoint])"
  using Transaction_paths
          [of pool_db user_repo
              "\<lparr>Repository = \<lparr>db = \<lparr>Conn = SqlTx, Statement = []\<rparr>, provider = Provider ''default''\<rparr>\<rparr>"
              ok_store failing_caller "GPAError ErrorTypeValidation ''test error'' None"]
        Transaction_paths
          [of pool_db user_repo
              "\<lparr>Repository = \<lparr>db = \<lparr>Conn = SqlTx, Statement = []\<rparr>, provider = Provider ''default''\<rparr>\<rparr>"
              ok_store passing_caller "ErrorString ''unused''"]
        Transaction_paths
          [of pool_db user_repo
              "\<lparr>Repository = \<lparr>db = \<lparr>Conn = SqlTx, Statement = []\<rparr>, provider = Provider ''default''\<rparr>\<rparr>"
              ok_store raw_caller ErrRecordNotFound]
        Transaction_paths
          [of "\<lparr>Conn = SqlTx, Statement = []\<rparr>" tx_repo
              "\<lparr>Repository = \<lparr>db = \<lparr>Conn = SqlTx, Statement = []\<rparr>, provider = Provider ''default''\<rparr>\<rparr>"
              ok_store raw_caller ErrRecordNotFound]
        Transaction_paths
          [of pool_db user_repo
              "\<lparr>Repository = \<lparr>db = \<lparr>Conn = SqlTx, Statement = []\<rparr>, provider = Provider ''default''\<rparr>\<rparr>"
              closed_store passing_caller "ErrorString ''connection refused''"]
        Transaction_paths
          [of "\<lparr>Conn = SqlTx, Statement = []\<rparr>" tx_repo
              "\<lparr>Repository = \<lparr>db = \<lparr>Conn = SqlTx, Statement = []\<rparr>, provider = Provider ''default''\<rparr>\<rparr>"
              closed_store passing_caller "ErrorString ''connection refused''"]
  by (simp add: failing_caller_def passing_caller_def raw_caller_def Create_def ok_store_def
        closed_store_def user_repo_def tx_repo_def pool_db_def hooked_entity_def WithContext_def
        NewError_def Let_def)

section \<open>Properties of CreateIndex\<close>

lemma fold_underscore:
  "fold (\<lambda>field name. name @ ''_'' @ field) rest base =
     base @ concat (map (\<lambda>field. ''_'' @ field) rest)"
  by (induction rest arbitrary: base) simp_all

lemma join_with_Cons:
  "join_with sep (x # xs) = x @ concat (map (\<lambda>y. sep @ y) xs)"
  by (induction xs arbitrary: x) simp_all

lemma index_name_loop:
  "fold (\<lambda>field name. name @ ''_'' @ field) rest (''idx_'' @ table @ ''_'' @ first) =
     spec_index_name table (first # rest)"
  by (simp only: fold_underscore join_with_Cons spec_index_name_def append_assoc)

text \<open>
  C10. The claim: \<open>CreateIndex\<close> reads the first field unconditionally, so that on the
  empty field list it panics instead of returning an error. The read comes after the
  schema of the entity type has been parsed, and a parse error is returned before it:
  on an entity type without a schema the empty field list yields the classified parse
  error and no panic.
\<close>

theorem CreateIndex_empty_fields_counterexample:
  "CreateIndex unparsed_store user_repo [] True =
     (Returned (Some (GPAError ErrorTypeDatabase ''database error''
                        (Some (ErrorString ''unsupported data type'')))),
      [SchemaParse])
   \<and> fst (CreateIndex unparsed_store user_repo [] True) \<noteq> Panic"
  by (simp add: CreateIndex_def unparsed_store_def ok_store_def NewErrorWithCause_def)

text \<open>
  C10, amended. When the schema of the entity type does not parse, \<open>CreateIndex\<close>
  returns the classified parse error for every field list, the empty one included.
  When it parses, \<open>CreateIndex\<close> panics on the empty field list, and on a non-empty
  one the index it looks up, and creates if absent, is named \<open>idx_\<close>, the table name,
  \<open>_\<close>, and the field names joined by \<open>_\<close> in the given order.
\<close>

theorem CreateIndex_parse_then_name:
  "(on_Parse st = Inl err \<longrightarrow>
      CreateIndex st r fieldNames unique =
        (Returned (convertGormError (Some err)), [SchemaParse]))
   \<and> (on_Parse st = Inr table \<longrightarrow>
      CreateIndex st r [] unique = (Panic, [SchemaParse])
      \<and> (fieldNames \<noteq> [] \<longrightarrow>
          CreateIndex st r fieldNames unique =
            (if on_HasIndex st (spec_index_name table fieldNames)
             then (Returned (Some (GPAError ErrorTypeDuplicate
                      (''index already exists: '' @ spec_index_name table fieldNames) None)),
                   [SchemaParse, MigratorHasIndex (spec_index_name table fieldNames)])
             else (Returned (convertGormError
                      (on_CreateIndex st (spec_index_name table fieldNames))),
                   [SchemaParse, MigratorHasIndex (spec_index_name table fieldNames),
                    MigratorCreateIndex (spec_index_name table fieldNames)]))))"
  unfolding CreateIndex_def index_name_loop
  by (cases fieldNames) (simp_all add: Let_def)

theorem CreateIndex_parse_then_name_witness:
  "CreateIndex ok_store user_repo [] True = (Panic, [SchemaParse])
   \<and> CreateIndex ok_store user_repo [''email'', ''tenant_id''] True =
       (Returned None,
        [SchemaParse, MigratorHasIndex ''idx_users_email_tenant_id'',
         MigratorCreateIndex ''idx_users_email_tenant_id''])
   \<and> CreateIndex unparsed_store user_repo [''email''] True =
       (Returned (Some (GPAError ErrorTypeDatabase ''database error''
                          (Some (ErrorString ''unsupported data type'')))),
        [SchemaParse])"
  using CreateIndex_parse_then_name
          [of ok_store "ErrorString ''unused''" user_repo "[''email'', ''tenant_id'']" True "''users''"]
        CreateIndex_parse_then_name
          [of unparsed_store "ErrorString ''unsupported data type''" user_repo "[''email'']" True
              "''unused''"]
  by (simp add: ok_store_def unparsed_store_def spec_index_name_def NewErrorWithCause_def)

end
